theory Spec2Isabelle
  imports Main
begin

section \<open>JavaScript values\<close>

text \<open>
  The facade of \<^verbatim>\<open>src/index.ts\<close> (compiled to \<^verbatim>\<open>lib/index.js\<close>) moves
  JavaScript values between its caller and the native module \<^verbatim>\<open>_bdk\<close>. A value
  the engine returns, or that a promise is rejected with, is any JavaScript value.
\<close>

text \<open>
  The numbers of the model are the integers that a JavaScript number holds exactly and
  that a template literal writes in plain decimal: those strictly between \<open>-2\<^sup>5\<^sup>3\<close>
  and \<open>2\<^sup>5\<^sup>3\<close> (\<^verbatim>\<open>Number.MIN_SAFE_INTEGER\<close> to
  \<^verbatim>\<open>Number.MAX_SAFE_INTEGER\<close>), which hold every word count, threshold and
  length the code handles. \<^verbatim>\<open>NaN\<close>, fractions and larger magnitudes, which
  are written in other notations (\<^verbatim>\<open>1e+21\<close>), are outside the model.
\<close>

typedef jsint = "{n :: int. - (2 ^ 53) < n \<and> n < 2 ^ 53}"
  morphisms int_of safe_int
  by (rule exI [of _ 0]) simp

datatype jsval =
    JUndefined
  | JNull
  | JBool bool
  | JNum jsint
  | JStr string
  | JArr "jsval list"
  | JObj "(string \<times> jsval) list"

text \<open>
  Modelled from the spec: the request interfaces of \<^verbatim>\<open>lib/interfaces\<close>, which
  are not among the sources. Section 3 lists their fields, every one optional; the
  records below keep the names the code reads (\<^verbatim>\<open>args.entropy\<close>,
  \<^verbatim>\<open>args.length\<close>, ...), prefixed per request since one name (\<^verbatim>\<open>network\<close>,
  \<^verbatim>\<open>mnemonic\<close>) occurs in several, and type each field by its use in the code:
  a string, a number, a list of strings. An optional field is left out
  (\<^verbatim>\<open>undefined\<close>), \<^verbatim>\<open>null\<close>, or a value of that type.
\<close>

datatype 'a opt = Undefined | Null | Val 'a

fun js_str :: "string opt \<Rightarrow> jsval" where
  "js_str Undefined = JUndefined"
| "js_str Null = JNull"
| "js_str (Val s) = JStr s"

fun js_num :: "jsint opt \<Rightarrow> jsval" where
  "js_num Undefined = JUndefined"
| "js_num Null = JNull"
| "js_num (Val n) = JNum n"

text \<open>Truthiness of an optional number: \<^verbatim>\<open>undefined\<close>, \<^verbatim>\<open>null\<close> and \<^verbatim>\<open>0\<close> are falsy.\<close>

fun truthy_num :: "jsint opt \<Rightarrow> bool" where
  "truthy_num (Val n) = (int_of n \<noteq> 0)"
| "truthy_num _ = False"

subsection \<open>Conversion to string, as a template literal does it\<close>

definition digit_char :: "nat \<Rightarrow> char" where
  "digit_char d = ''0123456789'' ! d"

fun show_nat :: "nat \<Rightarrow> string" where
  "show_nat n = (if n < 10 then [digit_char n] else show_nat (n div 10) @ [digit_char (n mod 10)])"

declare show_nat.simps [simp del]

definition show_int :: "int \<Rightarrow> string" where
  "show_int i = (if i < 0 then CHR ''-'' # show_nat (nat (- i)) else show_nat (nat i))"

text \<open>Reading a decimal numeral back, to state that \<open>show_nat\<close> writes one.\<close>

definition read_nat :: "string \<Rightarrow> nat" where
  "read_nat s = foldl (\<lambda>a c. 10 * a + (of_char c - 48)) 0 s"

text \<open>\<^verbatim>\<open>Array.prototype.join\<close> on the strings of a list.\<close>

fun join :: "string \<Rightarrow> string list \<Rightarrow> string" where
  "join sep [] = []"
| "join sep [x] = x"
| "join sep (x # y # ys) = x @ sep @ join sep (y # ys)"

text \<open>
  \<^verbatim>\<open>${v}\<close> in a template literal: an array is joined with commas, its
  \<^verbatim>\<open>undefined\<close> and \<^verbatim>\<open>null\<close> elements rendered empty; a plain object
  is \<^verbatim>\<open>[object Object]\<close>.
\<close>

fun to_string :: "jsval \<Rightarrow> string" where
  "to_string JUndefined = ''undefined''"
| "to_string JNull = ''null''"
| "to_string (JBool b) = (if b then ''true'' else ''false'')"
| "to_string (JNum n) = show_int (int_of n)"
| "to_string (JStr s) = s"
| "to_string (JArr xs) =
     join '','' (map (\<lambda>x. if x = JUndefined \<or> x = JNull then [] else to_string x) xs)"
| "to_string (JObj kvs) = ''[object Object]''"

text \<open>The nullish coalescing operator \<^verbatim>\<open>v ?? d\<close>.\<close>

definition nullish :: "jsval \<Rightarrow> jsval \<Rightarrow> jsval" where
  "nullish v d = (if v = JUndefined \<or> v = JNull then d else v)"

section \<open>The helpers of lib/utils\<close>

text \<open>
  What a \<^verbatim>\<open>throw\<close> or a rejected promise carries to the \<^verbatim>\<open>catch\<close> of an
  operation: the thrown value (the string literals of the facade, whatever the engine
  rejects with), or the \<^verbatim>\<open>TypeError\<close> of reading a property of
  \<^verbatim>\<open>undefined\<close> or \<^verbatim>\<open>null\<close>.
\<close>

datatype thrown = Thrown jsval | TypeError

text \<open>
  Modelled from the spec: the result envelope of \<^verbatim>\<open>lib/utils\<close>, which is not among
  the sources. Section 4.1 gives \<^verbatim>\<open>success(data) -> {ok:true, data}\<close> and
  \<^verbatim>\<open>failure(error) -> {ok:false, error: normalize(error)}\<close>, exactly one arm
  populated. \<open>Failure\<close> holds the value that was thrown, which \<^verbatim>\<open>normalize\<close>
  renders.
\<close>

datatype Response = Success jsval | Failure thrown

definition success :: "jsval \<Rightarrow> Response" where
  "success d = Success d"

definition failure :: "thrown \<Rightarrow> Response" where
  "failure e = Failure e"

text \<open>
  Reading \<^verbatim>\<open>.data\<close> of an envelope. On the success arm it is the data. What
  it is on the failure arm depends on the fields \<^verbatim>\<open>failure\<close> writes, which
  are not in the sources: \<^verbatim>\<open>undefined\<close> when the arm has no such field, as in
  section 4.1, the thrown value when the arm keeps it under that name. It is a parameter,
  \<open>failure_data\<close>, of the operation that reads it.
\<close>

fun data :: "(thrown \<Rightarrow> jsval) \<Rightarrow> Response \<Rightarrow> jsval" where
  "data failure_data (Success d) = d"
| "data failure_data (Failure e) = failure_data e"

fun is_failure :: "Response \<Rightarrow> bool" where
  "is_failure (Failure e) = True"
| "is_failure (Success d) = False"

text \<open>
  Modelled from the spec: \<^verbatim>\<open>_exists\<close> of \<^verbatim>\<open>lib/utils\<close>, which is not among the
  sources. Section 4.2: true iff the value is not null, not undefined, and not an empty
  string.
\<close>

definition js_exists :: "jsval \<Rightarrow> bool" where
  "js_exists v = (v \<noteq> JNull \<and> v \<noteq> JUndefined \<and> v \<noteq> JStr [])"

section \<open>The external engine\<close>

text \<open>
  The capabilities of \<^verbatim>\<open>NativeModules.BdkRnModule\<close> that the operations below call,
  with their positional arguments.
\<close>

datatype call =
    GenerateMnemonic jsval jsval
  | GetExtendedKeyInfo jsval jsval jsval
  | CreateWallet jsval jsval jsval jsval jsval jsval jsval jsval jsval
  | GetConfirmedTransactions
  | GetPendingTransactions

text \<open>
  The engine is opaque: given the calls an operation has already awaited and the call it
  makes now, it resolves with a value (\<open>Inr\<close>) or rejects with one (\<open>Inl\<close>). An
  operation returns its envelope together with the engine calls it made, in order.
\<close>

type_synonym engine = "call list \<Rightarrow> call \<Rightarrow> jsval + jsval"

section \<open>generateMnemonic\<close>

record GenerateMnemonicRequest =
  gm_entropy :: "jsint opt"
  gm_length :: "jsint opt"
  gm_network :: "string opt"

text \<open>The object literal \<^verbatim>\<open>entropyToLength\<close>, indexed by the entropy as a property key.\<close>

definition entropyToLength :: "(string \<times> jsint) list" where
  "entropyToLength =
     [(''128'', safe_int 12), (''160'', safe_int 15), (''192'', safe_int 18),
      (''224'', safe_int 21), (''256'', safe_int 24)]"

text \<open>
  The argument defaults to \<^verbatim>\<open>{ length: 12 }\<close> when the caller passes none
  (\<open>None\<close>).
\<close>

definition generateMnemonic :: "engine \<Rightarrow> GenerateMnemonicRequest option \<Rightarrow> Response \<times> call list" where
  "generateMnemonic bdk a =
     (let args = (case a of
                    None \<Rightarrow> \<lparr>gm_entropy = Undefined, gm_length = Val (safe_int 12),
                            gm_network = Undefined\<rparr>
                  | Some r \<Rightarrow> r);
          wordCount =
            (if truthy_num (gm_entropy args) \<and> truthy_num (gm_length args) then
               (case map_of entropyToLength (to_string (js_num (gm_entropy args))) of
                  Some n \<Rightarrow> JNum n
                | None \<Rightarrow> JUndefined)
             else if \<not> truthy_num (gm_entropy args) \<and> \<not> truthy_num (gm_length args) then
               JNum (safe_int 12)
             else js_num (gm_length args));
          network =
            (if js_exists (js_str (gm_network args)) then JStr ''testnet''
             else js_str (gm_network args));
          c = GenerateMnemonic wordCount network
      in case bdk [] c of
           Inl e \<Rightarrow> (failure (Thrown e), [c])
         | Inr seed \<Rightarrow> (success seed, [c]))"

section \<open>createXprv\<close>

record CreateExtendedKeyRequest =
  ek_network :: "string opt"
  ek_mnemonic :: "string opt"
  ek_password :: "string opt"

text \<open>
  \<^verbatim>\<open>keyInfo.xprv\<close>: a \<^verbatim>\<open>TypeError\<close> on \<^verbatim>\<open>undefined\<close> and
  \<^verbatim>\<open>null\<close>, the property of an object, and \<^verbatim>\<open>undefined\<close> on every value
  that has no such property.
\<close>

fun get_xprv :: "jsval \<Rightarrow> thrown + jsval" where
  "get_xprv JUndefined = Inl TypeError"
| "get_xprv JNull = Inl TypeError"
| "get_xprv (JObj kvs) = Inr (case map_of kvs ''xprv'' of Some v \<Rightarrow> v | None \<Rightarrow> JUndefined)"
| "get_xprv v = Inr JUndefined"

text \<open>The \<^verbatim>\<open>console.log\<close> of its \<^verbatim>\<open>catch\<close> is not part of the result.\<close>

definition createXprv :: "engine \<Rightarrow> CreateExtendedKeyRequest \<Rightarrow> Response \<times> call list" where
  "createXprv bdk args =
     (let c = GetExtendedKeyInfo (js_str (ek_network args)) (js_str (ek_mnemonic args))
                (js_str (ek_password args))
      in case bdk [] c of
           Inl e \<Rightarrow> (failure (Thrown e), [c])
         | Inr keyInfo \<Rightarrow>
             (case get_xprv keyInfo of
                Inl t \<Rightarrow> (failure t, [c])
              | Inr x \<Rightarrow> (success x, [c])))"

section \<open>createDescriptor\<close>

record CreateDescriptorRequest =
  cd_type :: "string opt"
  cd_mnemonic :: "string opt"
  cd_password :: "string opt"
  cd_network :: "string opt"
  cd_publicKeys :: "string list opt"
  cd_threshold :: "jsint opt"
  cd_xprv :: "string opt"
  cd_path :: "string opt"

text \<open>The \<^verbatim>\<open>switch (type)\<close> of the single-key branch; no case matches an unknown type.\<close>

definition method_of :: "string opt \<Rightarrow> string" where
  "method_of t =
     (if t = Val ''default'' \<or> t = Null \<or> t = Undefined \<or> t = Val [] \<or> t = Val ''p2wpkh''
         \<or> t = Val ''wpkh'' then ''wpkh''
      else if t = Val ''p2pkh'' \<or> t = Val ''pkh'' then ''pkh''
      else if t = Val ''shp2wpkh'' \<or> t = Val ''p2shp2wpkh'' then ''sh(wpkh''
      else [])"

text \<open>
  The construction of the descriptor from the key material and the path, once both are
  settled: the \<^verbatim>\<open>if (type != 'MULTI') ... else ...\<close> of the source, a
  \<^verbatim>\<open>throw\<close> being \<open>Inl\<close>.
\<close>

definition build_descriptor ::
  "string opt \<Rightarrow> jsval \<Rightarrow> jsval \<Rightarrow> string list opt \<Rightarrow> jsint opt \<Rightarrow> thrown + string" where
  "build_descriptor t xprv path publicKeys threshold =
     (if t \<noteq> Val ''MULTI'' then
        Inr (method_of t @ ''('' @ to_string xprv @ to_string path @ '')'')
      else
        (case (threshold, publicKeys) of
           (Val th, Val ks) \<Rightarrow>
             \<comment> \<open>\<^verbatim>\<open>!threshold || (publicKeys && publicKeys?.length == 0)\<close>\<close>
             if int_of th = 0 \<or> length ks = 0 then
               Inl (Thrown (JStr ''Thresold or publicKeys values are invalid.''))
             else if int_of th = 0 \<or> int_of th > int (length ks) + 1 then
               Inl (Thrown (JStr ''Thresold value is invalid.''))
             else
               Inr (''sh(multi('' @ to_string (JNum th) @ to_string xprv @ '','' @ join '','' ks
                      @ to_string path @ ''))'')
           \<comment> \<open>\<^verbatim>\<open>!threshold || !publicKeys\<close>: one of them is \<^verbatim>\<open>undefined\<close> or \<^verbatim>\<open>null\<close>\<close>
         | _ \<Rightarrow> Inl (Thrown (JStr ''Thresold or publicKeys values are invalid.''))))"

definition createDescriptor ::
  "(thrown \<Rightarrow> jsval) \<Rightarrow> engine \<Rightarrow> CreateDescriptorRequest \<Rightarrow> Response \<times> call list" where
  "createDescriptor failure_data bdk args =
     (if \<not> js_exists (js_str (cd_xprv args)) \<and> \<not> js_exists (js_str (cd_mnemonic args)) then
        (failure (Thrown (JStr ''Required param mnemonic or xprv is missing.'')), [])
      else if js_exists (js_str (cd_xprv args)) \<and> js_exists (js_str (cd_mnemonic args)) then
        (failure (Thrown (JStr ''Only one parameter is required either mnemonic or xprv.'')), [])
      else
        let useMnemonic = \<not> js_exists (js_str (cd_xprv args)) in
        if useMnemonic \<and>
           (\<not> js_exists (js_str (cd_mnemonic args)) \<or> \<not> js_exists (js_str (cd_network args)))
        then
          (failure (Thrown (JStr ''One or more required parameters are emtpy(Mnemonic, Network).'')), [])
        else
          let (xprv, calls) =
                (if useMnemonic then
                   (let (r, cs) = createXprv bdk
                          \<lparr>ek_network = cd_network args, ek_mnemonic = cd_mnemonic args,
                           ek_password = cd_password args\<rparr>
                    in (data failure_data r, cs))
                 else (js_str (cd_xprv args), []))
          in
          if \<not> useMnemonic \<and> \<not> js_exists xprv then
            (failure (Thrown (JStr ''XPRV is required'')), calls)
          else
            let path = (if \<not> js_exists (js_str (cd_path args)) then JStr ''/84'/1'/0'/0/*''
                        else js_str (cd_path args))
            in case build_descriptor (cd_type args) xprv path (cd_publicKeys args)
                      (cd_threshold args) of
                 Inl t \<Rightarrow> (failure t, calls)
               | Inr descriptor \<Rightarrow> (success (JStr descriptor), calls))"

section \<open>createWallet\<close>

text \<open>
  The fields the code inspects are strings; \<^verbatim>\<open>retry\<close> and \<^verbatim>\<open>timeOut\<close>
  are only handed on, whatever they are.
\<close>

record createWalletRequest =
  cw_mnemonic :: "string opt"
  cw_descriptor :: "string opt"
  cw_password :: "string opt"
  cw_network :: "string opt"
  cw_blockChainConfigUrl :: "string opt"
  cw_blockChainSocket5 :: "string opt"
  cw_retry :: jsval
  cw_timeOut :: jsval
  cw_blockChainName :: "string opt"

text \<open>\<^verbatim>\<open>descriptor?.includes(' ')\<close>: \<^verbatim>\<open>undefined\<close>, so falsy, on a nullish descriptor.\<close>

fun includes_space :: "string opt \<Rightarrow> bool" where
  "includes_space (Val s) = (CHR '' '' \<in> set s)"
| "includes_space _ = False"

definition createWallet :: "engine \<Rightarrow> createWalletRequest \<Rightarrow> Response \<times> call list" where
  "createWallet bdk args =
     (if \<not> js_exists (js_str (cw_descriptor args)) \<and> \<not> js_exists (js_str (cw_mnemonic args)) then
        (failure (Thrown (JStr ''Required param mnemonic or descriptor is missing.'')), [])
      else if js_exists (js_str (cw_descriptor args)) \<and> js_exists (js_str (cw_mnemonic args)) then
        (failure (Thrown (JStr ''Only one parameter is required either mnemonic or descriptor.'')), [])
      else
        let useDescriptor = js_exists (js_str (cw_descriptor args)) in
        if useDescriptor \<and> includes_space (cw_descriptor args) then
          (failure (Thrown (JStr ''Descriptor is not valid.'')), [])
        else if \<not> useDescriptor \<and>
           (\<not> js_exists (js_str (cw_mnemonic args)) \<or> \<not> js_exists (js_str (cw_network args)))
        then
          (failure (Thrown (JStr ''One or more required parameters are emtpy(Mnemonic, Network).'')), [])
        else
          let c = CreateWallet
                    (nullish (js_str (cw_mnemonic args)) (JStr []))
                    (nullish (js_str (cw_password args)) (JStr []))
                    (nullish (js_str (cw_network args)) (JStr []))
                    (nullish (js_str (cw_blockChainConfigUrl args)) (JStr []))
                    (nullish (js_str (cw_blockChainSocket5 args)) (JStr []))
                    (nullish (cw_retry args) (JStr []))
                    (nullish (cw_timeOut args) (JStr []))
                    (nullish (js_str (cw_blockChainName args)) (JStr []))
                    (nullish (js_str (cw_descriptor args)) (JStr []))
          in case bdk [] c of
               Inl e \<Rightarrow> (failure (Thrown e), [c])
             | Inr wallet \<Rightarrow> (success wallet, [c]))"

section \<open>getTransactions\<close>

text \<open>
  Two awaits in a row: the second call is made once the first has resolved, and not at
  all when the first rejects.
\<close>

definition getTransactions :: "engine \<Rightarrow> Response \<times> call list" where
  "getTransactions bdk =
     (case bdk [] GetConfirmedTransactions of
        Inl e \<Rightarrow> (failure (Thrown e), [GetConfirmedTransactions])
      | Inr confirmed \<Rightarrow>
          (case bdk [GetConfirmedTransactions] GetPendingTransactions of
             Inl e \<Rightarrow> (failure (Thrown e), [GetConfirmedTransactions, GetPendingTransactions])
           | Inr pending \<Rightarrow>
               (success (JObj [(''confirmed'', confirmed), (''pending'', pending)]),
                [GetConfirmedTransactions, GetPendingTransactions])))"

section \<open>Sample engines and requests\<close>

text \<open>An engine that resolves every call, and one that rejects every call.\<close>

definition resolving :: engine where
  "resolving h c = Inr (JStr ''ok'')"

definition rejecting :: engine where
  "rejecting h c = Inl (JStr ''engine error'')"

text \<open>An engine whose pending-transactions capability alone rejects.\<close>

definition pending_rejecting :: engine where
  "pending_rejecting h c =
     (if c = GetPendingTransactions then Inl (JStr ''engine error'') else Inr (JArr []))"

text \<open>
  Two envelopes: the one of section 4.1, whose failure arm has no \<^verbatim>\<open>data\<close>
  field, and one whose failure arm keeps the value the engine rejected with under
  \<^verbatim>\<open>data\<close> (what it holds for a \<^verbatim>\<open>TypeError\<close> is read by no
  sample below).
\<close>

definition no_data :: "thrown \<Rightarrow> jsval" where
  "no_data e = JUndefined"


text \<open>The requests \<^verbatim>\<open>{}\<close>: every field left out.\<close>

definition no_fields :: CreateDescriptorRequest where
  "no_fields = \<lparr>cd_type = Undefined, cd_mnemonic = Undefined, cd_password = Undefined,
     cd_network = Undefined, cd_publicKeys = Undefined, cd_threshold = Undefined,
     cd_xprv = Undefined, cd_path = Undefined\<rparr>"

definition no_wallet_fields :: createWalletRequest where
  "no_wallet_fields = \<lparr>cw_mnemonic = Undefined, cw_descriptor = Undefined,
     cw_password = Undefined, cw_network = Undefined, cw_blockChainConfigUrl = Undefined,
     cw_blockChainSocket5 = Undefined, cw_retry = JUndefined, cw_timeOut = JUndefined,
     cw_blockChainName = Undefined\<rparr>"


section \<open>The wallet constructor's contract, in the spec's words\<close>

text \<open>
  Section 4.6 of the spec: the empty string stands for every field the caller left absent.
\<close>

fun absent_as_empty :: "string opt \<Rightarrow> jsval" where
  "absent_as_empty (Val s) = JStr s"
| "absent_as_empty _ = JStr []"

text \<open>The nine positional arguments, in the order the spec lists them.\<close>

definition wallet_call :: "createWalletRequest \<Rightarrow> call" where
  "wallet_call args = CreateWallet
     (absent_as_empty (cw_mnemonic args)) (absent_as_empty (cw_password args))
     (absent_as_empty (cw_network args)) (absent_as_empty (cw_blockChainConfigUrl args))
     (absent_as_empty (cw_blockChainSocket5 args))
     (if cw_retry args = JUndefined \<or> cw_retry args = JNull then JStr [] else cw_retry args)
     (if cw_timeOut args = JUndefined \<or> cw_timeOut args = JNull then JStr [] else cw_timeOut args)
     (absent_as_empty (cw_blockChainName args)) (absent_as_empty (cw_descriptor args))"

text \<open>
  The preconditions of section 4.6: exactly one of descriptor and mnemonic is supplied; a
  supplied descriptor has no space; the mnemonic path needs a network.
\<close>

definition wallet_preconditions :: "createWalletRequest \<Rightarrow> bool" where
  "wallet_preconditions args \<longleftrightarrow>
     (js_exists (js_str (cw_descriptor args)) \<noteq> js_exists (js_str (cw_mnemonic args)))
     \<and> (\<forall>d. cw_descriptor args = Val d \<longrightarrow> CHR '' '' \<notin> set d)
     \<and> (js_exists (js_str (cw_mnemonic args)) \<and> \<not> js_exists (js_str (cw_descriptor args))
          \<longrightarrow> js_exists (js_str (cw_network args)))"

section \<open>Facts about the helpers\<close>

text \<open>The digits \<open>show_nat\<close> writes are the decimal numeral of its argument.\<close>

lemma digit_char_value:
  assumes "d < 10"
  shows "of_char (digit_char d) = 48 + d"
proof -
  from assms have "d \<in> {0, 1, 2, 3, 4, 5, 6, 7, 8, 9}"
    by auto
  then show ?thesis
    by (auto simp: digit_char_def)
qed

lemma read_nat_snoc: "read_nat (s @ [c]) = 10 * read_nat s + (of_char c - 48)"
  by (simp add: read_nat_def)

lemma read_show_nat: "read_nat (show_nat n) = n"
proof (induction n rule: show_nat.induct)
  case (1 n)
  show ?case
  proof (cases "n < 10")
    case True
    then show ?thesis
      by (simp add: show_nat.simps [of n] read_nat_def digit_char_value)
  next
    case False
    then have "read_nat (show_nat n) = 10 * (n div 10) + n mod 10"
      using "1.IH" by (simp add: show_nat.simps [of n] read_nat_snoc digit_char_value)
    then show ?thesis
      by simp
  qed
qed

lemma show_int_examples:
  "show_int 2 = ''2''" "show_int 12 = ''12''" "show_int (- 1) = ''-1''" "show_int 0 = ''0''"
  by (simp_all add: show_int_def show_nat.simps digit_char_def)

text \<open>A negative number is written with its sign, then the numeral of its magnitude.\<close>

lemma show_int_sign:
  "0 \<le> i \<Longrightarrow> read_nat (show_int i) = nat i"
  "i < 0 \<Longrightarrow> show_int i = CHR ''-'' # show_nat (nat (- i))"
  by (simp_all add: show_int_def read_show_nat)

text \<open>Every number of the model is a safe integer, and every safe integer is one.\<close>

lemma int_of_safe_int [simp]:
  "- (2 ^ 53) < n \<Longrightarrow> n < 2 ^ 53 \<Longrightarrow> int_of (safe_int n) = n"
  by (simp add: safe_int_inverse)

lemma int_of_range: "- (2 ^ 53) < int_of n \<and> int_of n < 2 ^ 53"
  using int_of [of n] by simp

text \<open>
  \<open>join\<close> is \<^verbatim>\<open>Array.prototype.join\<close>: the elements in order, the separator
  between each two and nowhere else.
\<close>

lemma join_Cons: "xs \<noteq> [] \<Longrightarrow> join sep (x # xs) = x @ sep @ join sep xs"
  by (cases xs) simp_all

lemma join_concat:
  "join sep xs = (case xs of [] \<Rightarrow> [] | x # r \<Rightarrow> x @ concat (map (\<lambda>y. sep @ y) r))"
proof (induction sep xs rule: join.induct)
  case (3 sep x y ys)
  then show ?case by simp
qed simp_all

lemma join_append:
  "xs \<noteq> [] \<Longrightarrow> ys \<noteq> [] \<Longrightarrow> join sep (xs @ ys) = join sep xs @ sep @ join sep ys"
proof (induction sep xs rule: join.induct)
  case (2 sep x)
  then show ?case by (simp add: join_Cons)
next
  case (3 sep x y ys')
  then show ?case by simp
qed simp

lemma join_length:
  "length (join sep xs) = sum_list (map length xs) + length sep * (length xs - 1)"
  by (induction sep xs rule: join.induct) simp_all

lemma join_examples:
  "join '','' [] = []" "join '','' [''A''] = ''A''" "join '','' [''A'', ''B''] = ''A,B''"
  "join '','' [''k1'', ''k2'', ''k3''] = ''k1,k2,k3''" "join ''--'' [''x'', [], ''z''] = ''x----z''"
  by simp_all

lemma exists_consts [simp]:
  "\<not> js_exists JUndefined" "\<not> js_exists JNull" "js_exists (JStr s) = (s \<noteq> [])"
  by (simp_all add: js_exists_def)

lemma exists_str [simp]: "js_exists (js_str v) = (\<exists>s. v = Val s \<and> s \<noteq> [])"
  by (cases v) simp_all

text \<open>
  With \<^verbatim>\<open>xprv\<close> supplied and no mnemonic, \<^verbatim>\<open>createDescriptor\<close> goes straight to
  the construction, and calls nothing.
\<close>

lemma createDescriptor_xprv_path:
  assumes "cd_xprv args = Val X" and "X \<noteq> []" and "\<not> js_exists (js_str (cd_mnemonic args))"
  shows "createDescriptor fd bdk args =
     (case build_descriptor (cd_type args) (JStr X)
             (if \<not> js_exists (js_str (cd_path args)) then JStr ''/84'/1'/0'/0/*''
              else js_str (cd_path args))
             (cd_publicKeys args) (cd_threshold args) of
        Inl t \<Rightarrow> (Failure t, [])
      | Inr d \<Rightarrow> (Success (JStr d), []))"
  using assms by (auto simp: createDescriptor_def failure_def success_def split: sum.splits)



text \<open>The two branches of the construction.\<close>

lemma build_descriptor_multi:
  assumes "ks \<noteq> []" and "int_of t \<noteq> 0" and "int_of t \<le> int (length ks) + 1"
  shows "build_descriptor (Val ''MULTI'') xprv path (Val ks) (Val t) =
     Inr (''sh(multi('' @ show_int (int_of t) @ to_string xprv @ '','' @ join '','' ks @ to_string path
            @ ''))'')"
  using assms by (simp add: build_descriptor_def)



text \<open>The one call of \<^verbatim>\<open>generateMnemonic\<close>, and the network it carries.\<close>

lemma generateMnemonic_call:
  "\<exists>wordCount. snd (generateMnemonic bdk a) =
     [GenerateMnemonic wordCount
        (case a of
           None \<Rightarrow> JUndefined
         | Some args \<Rightarrow>
             if js_exists (js_str (gm_network args)) then JStr ''testnet''
             else js_str (gm_network args))]"
  by (cases a) (simp_all add: generateMnemonic_def Let_def split: sum.splits)

lemma nullish_str: "nullish (js_str v) (JStr []) = absent_as_empty v"
  by (cases v) (simp_all add: nullish_def)

text \<open>The checks of \<^verbatim>\<open>createWallet\<close> are the preconditions, and nothing else.\<close>

lemma wallet_preconditions_code:
  "wallet_preconditions args \<longleftrightarrow>
     \<not> (\<not> js_exists (js_str (cw_descriptor args)) \<and> \<not> js_exists (js_str (cw_mnemonic args)))
     \<and> \<not> (js_exists (js_str (cw_descriptor args)) \<and> js_exists (js_str (cw_mnemonic args)))
     \<and> \<not> (js_exists (js_str (cw_descriptor args)) \<and> includes_space (cw_descriptor args))
     \<and> \<not> (\<not> js_exists (js_str (cw_descriptor args)) \<and>
           (\<not> js_exists (js_str (cw_mnemonic args)) \<or> \<not> js_exists (js_str (cw_network args))))"
  by (cases "cw_descriptor args") (auto simp: wallet_preconditions_def)

lemma createWallet_rejected:
  assumes "\<not> wallet_preconditions args"
  shows "\<exists>msg. createWallet bdk args = (Failure (Thrown (JStr msg)), [])"
  using assms unfolding wallet_preconditions_code createWallet_def failure_def Let_def
  by (simp del: exists_str) blast

lemma nullish_calls:
  "CreateWallet
     (nullish (js_str (cw_mnemonic args)) (JStr []))
     (nullish (js_str (cw_password args)) (JStr []))
     (nullish (js_str (cw_network args)) (JStr []))
     (nullish (js_str (cw_blockChainConfigUrl args)) (JStr []))
     (nullish (js_str (cw_blockChainSocket5 args)) (JStr []))
     (nullish (cw_retry args) (JStr []))
     (nullish (cw_timeOut args) (JStr []))
     (nullish (js_str (cw_blockChainName args)) (JStr []))
     (nullish (js_str (cw_descriptor args)) (JStr [])) = wallet_call args"
  unfolding wallet_call_def nullish_str by (simp add: nullish_def)

lemma createWallet_accepted:
  assumes "wallet_preconditions args"
  shows "createWallet bdk args =
     (case bdk [] (wallet_call args) of
        Inl e \<Rightarrow> (Failure (Thrown e), [wallet_call args])
      | Inr wallet \<Rightarrow> (Success wallet, [wallet_call args]))"
  using assms
  unfolding wallet_preconditions_code createWallet_def nullish_calls failure_def success_def Let_def
  by (simp del: exists_str) blast

section \<open>The descriptor of a wrapped segwit key\<close>

text \<open>
  Claim C1 states that \<^verbatim>\<open>type = "shp2wpkh"\<close> (or \<^verbatim>\<open>"p2shp2wpkh"\<close>) with a
  supplied xprv \<open>X\<close> and a supplied path \<open>P\<close> yields the balanced string
  \<^verbatim>\<open>sh(wpkh(XP))\<close>. The code does return a success envelope, but the method token
  \<^verbatim>\<open>sh(wpkh\<close> opens two parentheses and the template closes one: the string is
  \<^verbatim>\<open>sh(wpkh(XP)\<close>, and never the one the claim gives.
\<close>

theorem createDescriptor_shp2wpkh:
  assumes "cd_type args = Val ''shp2wpkh'' \<or> cd_type args = Val ''p2shp2wpkh''"
    and "cd_xprv args = Val X" and "X \<noteq> []"
    and "\<not> js_exists (js_str (cd_mnemonic args))"
    and "cd_path args = Val P" and "P \<noteq> []"
  shows "createDescriptor fd bdk args = (Success (JStr (''sh(wpkh('' @ X @ P @ '')'')), [])
     \<and> fst (createDescriptor fd bdk args) \<noteq> Success (JStr (''sh(wpkh('' @ X @ P @ ''))''))"
proof -
  have "build_descriptor (cd_type args) (JStr X) (JStr P) (cd_publicKeys args) (cd_threshold args)
          = Inr (''sh(wpkh('' @ X @ P @ '')'')"
    using assms(1) by (auto simp: build_descriptor_def method_of_def)
  with assms show ?thesis
    by (simp add: createDescriptor_xprv_path)
qed

theorem createDescriptor_shp2wpkh_witness:
  "createDescriptor no_data resolving
     (no_fields\<lparr>cd_type := Val ''shp2wpkh'', cd_xprv := Val ''X'',
        cd_path := Val ''/49'/0'/0'/0/*''\<rparr>)
   = (Success (JStr ''sh(wpkh(X/49'/0'/0'/0/*)''), [])"
  using createDescriptor_shp2wpkh [where args = "no_fields\<lparr>cd_type := Val ''shp2wpkh'',
      cd_xprv := Val ''X'', cd_path := Val ''/49'/0'/0'/0/*''\<rparr>" and X = "''X''"
      and P = "''/49'/0'/0'/0/*''" and fd = no_data and bdk = resolving]
  by (simp add: no_fields_def)

section \<open>The word count of generateMnemonic\<close>

text \<open>
  Claim C2 states that an entropy supplied alone is mapped to its word count (128 to 12,
  192 to 18). In the code the table \<^verbatim>\<open>entropyToLength\<close> is read only when entropy
  and length are both truthy; with entropy alone the last branch forwards
  \<^verbatim>\<open>args.length\<close>, the absent length itself.
\<close>

theorem generateMnemonic_entropy_only:
  assumes "truthy_num (gm_entropy args)" and "\<not> truthy_num (gm_length args)"
  shows "\<exists>network. snd (generateMnemonic bdk (Some args)) =
           [GenerateMnemonic (js_num (gm_length args)) network]"
  using assms by (simp add: generateMnemonic_def Let_def split: sum.splits)

theorem generateMnemonic_entropy_only_witness:
  "snd (generateMnemonic resolving
          (Some \<lparr>gm_entropy = Val (safe_int 128), gm_length = Undefined, gm_network = Undefined\<rparr>))
     = [GenerateMnemonic JUndefined JUndefined]
   \<and> snd (generateMnemonic resolving
          (Some \<lparr>gm_entropy = Val (safe_int 192), gm_length = Undefined, gm_network = Undefined\<rparr>))
     = [GenerateMnemonic JUndefined JUndefined]"
  using generateMnemonic_entropy_only [of "\<lparr>gm_entropy = Val (safe_int 128), gm_length = Undefined,
      gm_network = Undefined\<rparr>" resolving]
    generateMnemonic_entropy_only [of "\<lparr>gm_entropy = Val (safe_int 192), gm_length = Undefined,
      gm_network = Undefined\<rparr>" resolving]
  by (simp add: generateMnemonic_def Let_def resolving_def)

section \<open>The threshold of a multisig descriptor\<close>

text \<open>
  Claim C3 states that a \<^verbatim>\<open>MULTI\<close> request with a supplied xprv and \<open>n\<close> public
  keys fails exactly when the threshold lies outside \<open>1 \<le> threshold \<le> n + 1\<close>. The
  code rejects a threshold of 0 and one above \<open>n + 1\<close>, and nothing else: a negative
  threshold is truthy, is not \<^verbatim>\<open>== 0\<close>, and goes into the descriptor.
\<close>

theorem createDescriptor_multi_threshold:
  assumes "cd_type args = Val ''MULTI''"
    and "cd_xprv args = Val X" and "X \<noteq> []"
    and "\<not> js_exists (js_str (cd_mnemonic args))"
    and "cd_publicKeys args = Val ks" and "ks \<noteq> []"
    and "cd_threshold args = Val t"
  shows "is_failure (fst (createDescriptor fd bdk args)) \<longleftrightarrow>
           int_of t = 0 \<or> int (length ks) + 1 < int_of t"
  using assms by (auto simp: createDescriptor_xprv_path build_descriptor_def)

theorem createDescriptor_multi_threshold_witness:
  "\<not> is_failure (fst (createDescriptor no_data resolving
       (no_fields\<lparr>cd_type := Val ''MULTI'', cd_xprv := Val ''X'', cd_threshold := Val (safe_int (- 1)),
          cd_publicKeys := Val [''A'', ''B'']\<rparr>)))
   \<and> createDescriptor no_data resolving
       (no_fields\<lparr>cd_type := Val ''MULTI'', cd_xprv := Val ''X'', cd_threshold := Val (safe_int (- 1)),
          cd_publicKeys := Val [''A'', ''B'']\<rparr>)
     = (Success (JStr ''sh(multi(-1X,A,B/84'/1'/0'/0/*))''), [])"
  using createDescriptor_multi_threshold [of "no_fields\<lparr>cd_type := Val ''MULTI'',
      cd_xprv := Val ''X'', cd_threshold := Val (safe_int (- 1)), cd_publicKeys := Val [''A'', ''B'']\<rparr>"
      "''X''" "[''A'', ''B'']" "safe_int (- 1)" no_data resolving]
  by (simp add: no_fields_def createDescriptor_xprv_path build_descriptor_def show_int_def
        show_nat.simps digit_char_def)

section \<open>The network handed to the mnemonic generator\<close>

text \<open>
  Claim C4: in \<^verbatim>\<open>generateMnemonic\<close>, a network that is supplied (not null, not
  undefined, not the empty string) is replaced by the literal \<^verbatim>\<open>testnet\<close> before
  it reaches the engine, whatever it was; an absent one is forwarded as it is. Called
  with no argument at all, the operation forwards \<^verbatim>\<open>undefined\<close>.
\<close>

theorem generateMnemonic_network:
  "(\<forall>n. gm_network args = Val n \<and> n \<noteq> [] \<longrightarrow>
      (\<exists>wordCount. snd (generateMnemonic bdk (Some args)) =
         [GenerateMnemonic wordCount (JStr ''testnet'')]))
   \<and> (gm_network args = Undefined \<or> gm_network args = Null \<or> gm_network args = Val [] \<longrightarrow>
      (\<exists>wordCount. snd (generateMnemonic bdk (Some args)) =
         [GenerateMnemonic wordCount (js_str (gm_network args))]))
   \<and> (\<exists>wordCount. snd (generateMnemonic bdk None) = [GenerateMnemonic wordCount JUndefined])"
proof (intro conjI allI impI)
  fix n assume "gm_network args = Val n \<and> n \<noteq> []"
  then show "\<exists>wordCount. snd (generateMnemonic bdk (Some args)) =
         [GenerateMnemonic wordCount (JStr ''testnet'')]"
    using generateMnemonic_call [of bdk "Some args"] by simp
next
  assume "gm_network args = Undefined \<or> gm_network args = Null \<or> gm_network args = Val []"
  then have "\<not> js_exists (js_str (gm_network args))"
    by auto
  then show "\<exists>wordCount. snd (generateMnemonic bdk (Some args)) =
         [GenerateMnemonic wordCount (js_str (gm_network args))]"
    using generateMnemonic_call [of bdk "Some args"] by (simp del: exists_str)
next
  show "\<exists>wordCount. snd (generateMnemonic bdk None) = [GenerateMnemonic wordCount JUndefined]"
    using generateMnemonic_call [of bdk None] by simp
qed

theorem generateMnemonic_network_witness:
  "snd (generateMnemonic resolving
          (Some \<lparr>gm_entropy = Undefined, gm_length = Undefined, gm_network = Val ''bitcoin''\<rparr>))
     = [GenerateMnemonic (JNum (safe_int 12)) (JStr ''testnet'')]
   \<and> snd (generateMnemonic resolving
          (Some \<lparr>gm_entropy = Undefined, gm_length = Undefined, gm_network = Null\<rparr>))
     = [GenerateMnemonic (JNum (safe_int 12)) JNull]
   \<and> snd (generateMnemonic resolving
          (Some \<lparr>gm_entropy = Undefined, gm_length = Undefined, gm_network = Val []\<rparr>))
     = [GenerateMnemonic (JNum (safe_int 12)) (JStr [])]"
  using generateMnemonic_network [of "\<lparr>gm_entropy = Undefined, gm_length = Undefined,
      gm_network = Val ''bitcoin''\<rparr>" resolving]
    generateMnemonic_network [of "\<lparr>gm_entropy = Undefined, gm_length = Undefined,
      gm_network = Null\<rparr>" resolving]
    generateMnemonic_network [of "\<lparr>gm_entropy = Undefined, gm_length = Undefined,
      gm_network = Val []\<rparr>" resolving]
  by (simp add: generateMnemonic_def Let_def resolving_def)

section \<open>One key source for a descriptor\<close>

text \<open>
  Claim C5: \<^verbatim>\<open>createDescriptor\<close> with neither xprv nor mnemonic fails with
  \<^verbatim>\<open>Required param mnemonic or xprv is missing.\<close>, and with both fails with
  \<^verbatim>\<open>Only one parameter is required either mnemonic or xprv.\<close>; either way the
  result is the failure envelope, no descriptor, and the engine is not called.
\<close>

theorem createDescriptor_exactly_one:
  "(\<not> js_exists (js_str (cd_xprv args)) \<and> \<not> js_exists (js_str (cd_mnemonic args)) \<longrightarrow>
      createDescriptor fd bdk args =
        (Failure (Thrown (JStr ''Required param mnemonic or xprv is missing.'')), []))
   \<and> (js_exists (js_str (cd_xprv args)) \<and> js_exists (js_str (cd_mnemonic args)) \<longrightarrow>
      createDescriptor fd bdk args =
        (Failure (Thrown (JStr ''Only one parameter is required either mnemonic or xprv.'')), []))"
  by (simp add: createDescriptor_def failure_def)

theorem createDescriptor_exactly_one_witness:
  "createDescriptor no_data resolving no_fields =
     (Failure (Thrown (JStr ''Required param mnemonic or xprv is missing.'')), [])
   \<and> createDescriptor no_data resolving (no_fields\<lparr>cd_xprv := Val ''X'', cd_mnemonic := Val ''seed''\<rparr>) =
     (Failure (Thrown (JStr ''Only one parameter is required either mnemonic or xprv.'')), [])"
  using createDescriptor_exactly_one [of no_fields no_data resolving]
    createDescriptor_exactly_one [of "no_fields\<lparr>cd_xprv := Val ''X'', cd_mnemonic := Val ''seed''\<rparr>"
      no_data resolving]
  by (simp add: no_fields_def)

section \<open>The validation of createWallet\<close>

text \<open>
  Claim C6: \<^verbatim>\<open>createWallet\<close> returns a failure without calling the engine's
  wallet constructor if and only if a precondition is violated, the preconditions being:
  exactly one of descriptor and mnemonic is supplied; a supplied descriptor contains no
  space character; on the mnemonic path the network is supplied too.
\<close>

theorem createWallet_rejects_iff:
  "(is_failure (fst (createWallet bdk args)) \<and> snd (createWallet bdk args) = []) \<longleftrightarrow>
   \<not> ((js_exists (js_str (cw_descriptor args)) \<noteq> js_exists (js_str (cw_mnemonic args)))
      \<and> (\<forall>d. cw_descriptor args = Val d \<longrightarrow> CHR '' '' \<notin> set d)
      \<and> (js_exists (js_str (cw_mnemonic args)) \<and> \<not> js_exists (js_str (cw_descriptor args))
           \<longrightarrow> js_exists (js_str (cw_network args))))"
proof (cases "wallet_preconditions args")
  case True
  then show ?thesis
    by (auto simp: createWallet_accepted wallet_preconditions_def split: sum.splits)
next
  case False
  then obtain msg where "createWallet bdk args = (Failure (Thrown (JStr msg)), [])"
    using createWallet_rejected by blast
  with False show ?thesis
    by (simp add: wallet_preconditions_def)
qed

theorem createWallet_rejects_iff_witness:
  "is_failure (fst (createWallet resolving (no_wallet_fields\<lparr>cw_descriptor := Val ''a b''\<rparr>)))
   \<and> snd (createWallet resolving (no_wallet_fields\<lparr>cw_descriptor := Val ''a b''\<rparr>)) = []
   \<and> snd (createWallet resolving (no_wallet_fields\<lparr>cw_descriptor := Val ''wpkh(X)''\<rparr>)) \<noteq> []"
  using createWallet_rejects_iff [of resolving "no_wallet_fields\<lparr>cw_descriptor := Val ''a b''\<rparr>"]
    createWallet_rejects_iff [of resolving "no_wallet_fields\<lparr>cw_descriptor := Val ''wpkh(X)''\<rparr>"]
  by (simp add: no_wallet_fields_def createWallet_accepted wallet_preconditions_def resolving_def)

section \<open>What createWallet hands to the engine\<close>

text \<open>
  Claim C7: a \<^verbatim>\<open>createWallet\<close> request that passes validation makes one call of
  the engine's wallet constructor, with the nine arguments mnemonic, password, network,
  backend URL, proxy, retry count, timeout, backend name, descriptor, in that order, the
  empty string standing for each absent one. What the engine resolves with comes back in
  a success envelope (and what it rejects with, in a failure envelope).
\<close>

theorem createWallet_forwards:
  assumes "js_exists (js_str (cw_descriptor args)) \<noteq> js_exists (js_str (cw_mnemonic args))"
    and "\<forall>d. cw_descriptor args = Val d \<longrightarrow> CHR '' '' \<notin> set d"
    and "js_exists (js_str (cw_mnemonic args)) \<and> \<not> js_exists (js_str (cw_descriptor args))
           \<longrightarrow> js_exists (js_str (cw_network args))"
  shows "snd (createWallet bdk args) =
        [CreateWallet
          (absent_as_empty (cw_mnemonic args)) (absent_as_empty (cw_password args))
          (absent_as_empty (cw_network args)) (absent_as_empty (cw_blockChainConfigUrl args))
          (absent_as_empty (cw_blockChainSocket5 args))
          (if cw_retry args = JUndefined \<or> cw_retry args = JNull then JStr [] else cw_retry args)
          (if cw_timeOut args = JUndefined \<or> cw_timeOut args = JNull then JStr []
           else cw_timeOut args)
          (absent_as_empty (cw_blockChainName args)) (absent_as_empty (cw_descriptor args))]
     \<and> (\<forall>wallet. bdk [] (wallet_call args) = Inr wallet \<longrightarrow>
           fst (createWallet bdk args) = Success wallet)
     \<and> (\<forall>e. bdk [] (wallet_call args) = Inl e \<longrightarrow>
           fst (createWallet bdk args) = Failure (Thrown e))"
proof -
  have "wallet_preconditions args"
    using assms unfolding wallet_preconditions_def by blast
  then have "createWallet bdk args =
     (case bdk [] (wallet_call args) of
        Inl e \<Rightarrow> (Failure (Thrown e), [wallet_call args])
      | Inr wallet \<Rightarrow> (Success wallet, [wallet_call args]))"
    by (rule createWallet_accepted)
  then show ?thesis
    by (simp add: wallet_call_def split: sum.splits)
qed

theorem createWallet_forwards_witness:
  "createWallet resolving
     (no_wallet_fields\<lparr>cw_mnemonic := Val ''seed'', cw_network := Val ''testnet'',
        cw_retry := JNum (safe_int 5)\<rparr>)
   = (Success (JStr ''ok''),
      [CreateWallet (JStr ''seed'') (JStr []) (JStr ''testnet'') (JStr []) (JStr []) (JNum (safe_int 5))
         (JStr []) (JStr []) (JStr [])])"
  using createWallet_forwards [of "no_wallet_fields\<lparr>cw_mnemonic := Val ''seed'',
      cw_network := Val ''testnet'', cw_retry := JNum (safe_int 5)\<rparr>" resolving]
  by (simp add: no_wallet_fields_def wallet_call_def resolving_def prod_eq_iff)

section \<open>The multisig descriptor\<close>

text \<open>
  Claim C8: a \<^verbatim>\<open>MULTI\<close> request that passes the threshold and public-key
  validation, with xprv \<open>X\<close>, path \<open>P\<close> (the default path when none is supplied),
  threshold \<open>t\<close> and public keys \<open>ks\<close>, returns the descriptor
  \<^verbatim>\<open>sh(multi(\<close>\<open>t X\<close>\<^verbatim>\<open>,\<close>\<open>ks\<close> joined by commas, \<open>P\<close>\<^verbatim>\<open>))\<close>; threshold 2,
  keys A and B, xprv X and the default path give
  \<^verbatim>\<open>sh(multi(2X,A,B/84'/1'/0'/0/*))\<close>.
\<close>

theorem createDescriptor_multi:
  assumes "cd_type args = Val ''MULTI''"
    and "cd_xprv args = Val X" and "X \<noteq> []"
    and "\<not> js_exists (js_str (cd_mnemonic args))"
    and "cd_publicKeys args = Val ks" and "ks \<noteq> []"
    and "cd_threshold args = Val t" and "int_of t \<noteq> 0" and "int_of t \<le> int (length ks) + 1"
    and "cd_path args = Val P \<and> P \<noteq> []
         \<or> \<not> js_exists (js_str (cd_path args)) \<and> P = ''/84'/1'/0'/0/*''"
  shows "createDescriptor fd bdk args =
     (Success (JStr (''sh(multi('' @ show_int (int_of t) @ X @ '','' @ join '','' ks @ P
                       @ ''))'')), [])"
proof -
  have "to_string (if \<not> js_exists (js_str (cd_path args)) then JStr ''/84'/1'/0'/0/*''
              else js_str (cd_path args)) = P"
    using assms(10) by auto
  then show ?thesis
    using assms(1-9) by (simp add: createDescriptor_xprv_path build_descriptor_multi del: exists_str)
qed

theorem createDescriptor_multi_witness:
  "createDescriptor no_data resolving
     (no_fields\<lparr>cd_type := Val ''MULTI'', cd_xprv := Val ''X'', cd_threshold := Val (safe_int 2),
        cd_publicKeys := Val [''A'', ''B'']\<rparr>)
   = (Success (JStr ''sh(multi(2X,A,B/84'/1'/0'/0/*))''), [])
   \<and> createDescriptor no_data resolving
     (no_fields\<lparr>cd_type := Val ''MULTI'', cd_xprv := Val ''xprv9'', cd_threshold := Val (safe_int 3),
        cd_publicKeys := Val [''k1'', ''k2'', ''k3''], cd_path := Val ''/0/*''\<rparr>)
   = (Success (JStr ''sh(multi(3xprv9,k1,k2,k3/0/*))''), [])"
  using createDescriptor_multi [where args = "no_fields\<lparr>cd_type := Val ''MULTI'',
      cd_xprv := Val ''X'', cd_threshold := Val (safe_int 2), cd_publicKeys := Val [''A'', ''B'']\<rparr>"
      and X = "''X''" and ks = "[''A'', ''B'']" and t = "safe_int 2"
      and P = "''/84'/1'/0'/0/*''" and fd = no_data and bdk = resolving]
    createDescriptor_multi [where args = "no_fields\<lparr>cd_type := Val ''MULTI'',
      cd_xprv := Val ''xprv9'', cd_threshold := Val (safe_int 3),
      cd_publicKeys := Val [''k1'', ''k2'', ''k3''], cd_path := Val ''/0/*''\<rparr>"
      and X = "''xprv9''" and ks = "[''k1'', ''k2'', ''k3'']" and t = "safe_int 3"
      and P = "''/0/*''" and fd = no_data and bdk = resolving]
  by (simp add: no_fields_def show_int_def show_nat.simps digit_char_def)

section \<open>The two fetches of getTransactions\<close>

text \<open>
  Claim C9: \<^verbatim>\<open>getTransactions\<close> calls the confirmed-transactions capability first
  and the pending-transactions capability second, one after the other; when both resolve
  it returns the record of the two results in a success envelope, and when either call
  rejects it returns a failure envelope. (A rejected first call ends the operation: the
  second is then not made.)
\<close>

theorem getTransactions_sequential:
  "(\<exists>rest. snd (getTransactions bdk) = GetConfirmedTransactions # rest
       \<and> (rest = [] \<or> rest = [GetPendingTransactions]))
   \<and> (\<forall>confirmed pending.
         bdk [] GetConfirmedTransactions = Inr confirmed
         \<and> bdk [GetConfirmedTransactions] GetPendingTransactions = Inr pending \<longrightarrow>
         getTransactions bdk =
           (Success (JObj [(''confirmed'', confirmed), (''pending'', pending)]),
            [GetConfirmedTransactions, GetPendingTransactions]))
   \<and> (\<forall>e. bdk [] GetConfirmedTransactions = Inl e \<longrightarrow>
         getTransactions bdk = (Failure (Thrown e), [GetConfirmedTransactions]))
   \<and> (\<forall>confirmed e.
         bdk [] GetConfirmedTransactions = Inr confirmed
         \<and> bdk [GetConfirmedTransactions] GetPendingTransactions = Inl e \<longrightarrow>
         getTransactions bdk =
           (Failure (Thrown e), [GetConfirmedTransactions, GetPendingTransactions]))"
proof (intro conjI allI impI)
  show "\<exists>rest. snd (getTransactions bdk) = GetConfirmedTransactions # rest
       \<and> (rest = [] \<or> rest = [GetPendingTransactions])"
    by (simp add: getTransactions_def split: sum.splits)
qed (simp_all add: getTransactions_def success_def failure_def)

theorem getTransactions_sequential_witness:
  "getTransactions resolving =
     (Success (JObj [(''confirmed'', JStr ''ok''), (''pending'', JStr ''ok'')]),
      [GetConfirmedTransactions, GetPendingTransactions])
   \<and> getTransactions rejecting =
     (Failure (Thrown (JStr ''engine error'')), [GetConfirmedTransactions])
   \<and> getTransactions pending_rejecting =
     (Failure (Thrown (JStr ''engine error'')), [GetConfirmedTransactions, GetPendingTransactions])"
  using getTransactions_sequential [of resolving] getTransactions_sequential [of rejecting]
    getTransactions_sequential [of pending_rejecting]
  by (simp add: resolving_def rejecting_def pending_rejecting_def)

section \<open>A descriptor from a key the engine did not derive\<close>




end
